theory Spec2Isabelle
  imports Main "HOL-Library.Word" "HOL-Library.Multiset"
begin

section \<open>Tensors, variables and the autograd context\<close>

text \<open>
  A tensor handle as the operator layer of \<^verbatim>\<open>sparse_ops_gpu.cpp\<close> sees it: the device it
  lives on, its shape, and its entries along dimension 0 (a row of the trailing dimensions
  is one entry). Index tensors are \<open>int tensor\<close> (int64 entries, never used in arithmetic
  that could wrap); value tensors are \<open>'a tensor\<close>, where \<open>'a\<close> stands for one row and the
  addition on \<open>'a\<close> is the exact, commutative addition of rows.
\<close>

datatype device = CPU | CUDA nat

record 'e tensor =
  get_device :: device
  sizes :: "nat list"
  elems :: "'e list"

text \<open>
  The failures of the layer. \<open>InvalidArgument\<close> is a failed \<^verbatim>\<open>TORCH_CHECK\<close> on the number of
  gradient outputs, \<open>NotCudaTensor\<close> a failed \<^verbatim>\<open>TENSOR_ON_CUDA_GPU\<close>, \<open>DeviceMismatch\<close> a failed
  \<^verbatim>\<open>TENSORS_ON_SAME_DEVICE\<close>, \<open>InternalError\<close> a saved scalar or saved tensor that is absent
  (or of the wrong kind) at backward time, \<open>IndexError\<close> a \<^verbatim>\<open>size(0)\<close> on a tensor without
  dimensions, and \<open>KernelError\<close> a failure raised inside a numeric kernel.
\<close>

datatype error =
  InvalidArgument | NotCudaTensor | DeviceMismatch | InternalError | IndexError | KernelError

text \<open>The values kept in \<^verbatim>\<open>ctx->saved_data\<close> (\<^verbatim>\<open>c10::IValue\<close>).\<close>

datatype ivalue = IVInt int | IVBool bool | IVIntList "nat list"

text \<open>
  \<^verbatim>\<open>torch::autograd::AutogradContext\<close>: the string-keyed \<^verbatim>\<open>saved_data\<close> and the ordered
  list of tensors given to \<^verbatim>\<open>save_for_backward\<close>. The type parameter is the type of the
  saved tensors.
\<close>

record 't autograd_context =
  saved_data :: "string \<rightharpoonup> ivalue"
  saved_variables :: "'t list"

definition new_context :: "'t autograd_context" where
  "new_context = \<lparr>saved_data = Map.empty, saved_variables = []\<rparr>"

text \<open>
  \<^verbatim>\<open>saved_data[key].toInt()\<close> and its siblings. \<^verbatim>\<open>operator[]\<close> on an absent key yields the
  None value, on which every accessor fails its internal assertion.
\<close>

definition toInt :: "ivalue option \<Rightarrow> error + int" where
  "toInt v = (case v of Some (IVInt i) \<Rightarrow> Inr i | _ \<Rightarrow> Inl InternalError)"

definition toBool :: "ivalue option \<Rightarrow> error + bool" where
  "toBool v = (case v of Some (IVBool b) \<Rightarrow> Inr b | _ \<Rightarrow> Inl InternalError)"

definition toIntVector :: "ivalue option \<Rightarrow> error + nat list" where
  "toIntVector v = (case v of Some (IVIntList ns) \<Rightarrow> Inr ns | _ \<Rightarrow> Inl InternalError)"

text \<open>
  Modelled from the spec: the macro \<^verbatim>\<open>TENSOR_ON_CUDA_GPU\<close> comes from
  \<^verbatim>\<open>fbgemm_gpu/sparse_ops_utils.h\<close>, which is not part of the sources at hand. It requires
  its tensor to reside on a CUDA device.
\<close>

definition is_cuda :: "'e tensor \<Rightarrow> bool" where
  "is_cuda t = (case get_device t of CUDA _ \<Rightarrow> True | CPU \<Rightarrow> False)"

text \<open>
  Modelled from the spec: the macro \<^verbatim>\<open>TENSORS_ON_SAME_DEVICE\<close> comes from the same missing
  header. It requires its two tensors to reside on the same device.
\<close>

definition same_device :: "'e tensor \<Rightarrow> 'f tensor \<Rightarrow> bool" where
  "same_device x y = (get_device x = get_device y)"

text \<open>
  \<^verbatim>\<open>at::Tensor::sort\<close> on a one-dimensional index tensor: the ascending values and, for each
  of them, the position it came from. Ties are kept in their original order here; the
  results below only use that the positions are a permutation.
\<close>

definition tensor_sort :: "int tensor \<Rightarrow> int tensor \<times> int tensor" where
  "tensor_sort t =
     (let ps = sort_key fst (zip (elems t) [0..<length (elems t)])
      in (t\<lparr>elems := map fst ps\<rparr>, t\<lparr>elems := map (int \<circ> snd) ps\<rparr>))"

text \<open>The narrowing of an \<^verbatim>\<open>int64_t\<close> value to a C \<^verbatim>\<open>int\<close> parameter.\<close>

definition to_int32 :: "int \<Rightarrow> 32 word" where
  "to_int32 i = word_of_int i"

section \<open>PackSegments\<close>

text \<open>
  The kernels \<^verbatim>\<open>pack_segments_forward_cuda\<close> and \<^verbatim>\<open>pack_segments_backward_cuda\<close> are
  external; they are parameters of the operator, \<open>None\<close> being a failure inside the kernel.
\<close>

definition PackSegments_forward ::
  "('a tensor \<Rightarrow> int tensor \<Rightarrow> int \<Rightarrow> 'a tensor option) \<Rightarrow>
   int tensor autograd_context \<Rightarrow> 'a tensor \<Rightarrow> int tensor \<Rightarrow> int \<Rightarrow>
   error + (int tensor autograd_context \<times> 'a tensor list)" where
  "PackSegments_forward pack_segments_forward_cuda ctx t_in lengths max_length =
     (case sizes t_in of
        [] \<Rightarrow> Inl IndexError
      | total_length # _ \<Rightarrow>
          (let ctx1 = ctx\<lparr>saved_data := (saved_data ctx)(''max_length'' \<mapsto> IVInt max_length)\<rparr>;
               ctx2 = ctx1\<lparr>saved_data :=
                        (saved_data ctx1)(''total_length'' \<mapsto> IVInt (int total_length))\<rparr>;
               ctx3 = ctx2\<lparr>saved_variables := [lengths]\<rparr>
           in case pack_segments_forward_cuda t_in lengths max_length of
                None \<Rightarrow> Inl KernelError
              | Some res \<Rightarrow> Inr (ctx3, [res])))"

definition PackSegments_backward ::
  "('a tensor \<Rightarrow> int tensor \<Rightarrow> int \<Rightarrow> int \<Rightarrow> 'a tensor option) \<Rightarrow>
   int tensor autograd_context \<Rightarrow> 'a tensor list \<Rightarrow> error + 'a tensor option list" where
  "PackSegments_backward pack_segments_backward_cuda ctx grad_output =
     (if \<not> (length grad_output = 2 \<or> length grad_output = 1) then Inl InvalidArgument
      else
        let grad = grad_output ! 0 in
        case toInt (saved_data ctx ''max_length'') of
          Inl e \<Rightarrow> Inl e
        | Inr max_length \<Rightarrow>
        (case toInt (saved_data ctx ''total_length'') of
          Inl e \<Rightarrow> Inl e
        | Inr total_length \<Rightarrow>
        (case saved_variables ctx of
          [] \<Rightarrow> Inl InternalError
        | lengths # _ \<Rightarrow>
        (case pack_segments_backward_cuda grad lengths total_length max_length of
          None \<Rightarrow> Inl KernelError
        | Some grad_input \<Rightarrow> Inr ((replicate 5 None)[0 := Some grad_input])))))"

text \<open>\<^verbatim>\<open>pack_segments_cuda\<close>: \<^verbatim>\<open>PackSegments::apply\<close> on a fresh context, then entry 0.\<close>

definition pack_segments_cuda ::
  "('a tensor \<Rightarrow> int tensor \<Rightarrow> int \<Rightarrow> 'a tensor option) \<Rightarrow>
   'a tensor \<Rightarrow> int tensor \<Rightarrow> int \<Rightarrow> error + 'a tensor" where
  "pack_segments_cuda pack_segments_forward_cuda t_in lengths max_length =
     (case PackSegments_forward pack_segments_forward_cuda new_context t_in lengths max_length of
        Inl e \<Rightarrow> Inl e
      | Inr (ctx, res) \<Rightarrow> Inr (res ! 0))"

section \<open>LookupFunctionBatchedUnaryEmbeddingOp\<close>

text \<open>
  All four inputs are saved as they are and only handed on to the external kernels, so the
  tensor type \<open>'t\<close> is left open here.
\<close>

definition LookupFunctionBatchedUnaryEmbeddingOp_forward ::
  "('t \<Rightarrow> 't \<Rightarrow> 't \<Rightarrow> 't \<Rightarrow> 't option) \<Rightarrow>
   't autograd_context \<Rightarrow> 't \<Rightarrow> 't \<Rightarrow> 't \<Rightarrow> 't \<Rightarrow> error + ('t autograd_context \<times> 't list)" where
  "LookupFunctionBatchedUnaryEmbeddingOp_forward batched_unary_embeddings_forward_cuda
       ctx weight table_offsets offsets indices =
     (let ctx1 = ctx\<lparr>saved_variables := [weight, table_offsets, offsets, indices]\<rparr>
      in case batched_unary_embeddings_forward_cuda weight table_offsets offsets indices of
           None \<Rightarrow> Inl KernelError
         | Some output \<Rightarrow> Inr (ctx1, [output]))"

text \<open>
  The four saved tensors are read before the arity check; a context that does not hold
  four of them is a broken forward/backward contract.
\<close>

definition LookupFunctionBatchedUnaryEmbeddingOp_backward ::
  "('t \<Rightarrow> 't \<Rightarrow> 't \<Rightarrow> 't \<Rightarrow> 't \<Rightarrow> 't option) \<Rightarrow>
   't autograd_context \<Rightarrow> 't list \<Rightarrow> error + 't option list" where
  "LookupFunctionBatchedUnaryEmbeddingOp_backward batched_unary_embeddings_backward_cuda
       ctx grad_outputs =
     (case saved_variables ctx of
        weight # table_offsets # offsets # indices # _ \<Rightarrow>
          if length grad_outputs \<noteq> 1 then Inl InvalidArgument
          else
            (case batched_unary_embeddings_backward_cuda
                    (grad_outputs ! 0) weight table_offsets offsets indices of
               None \<Rightarrow> Inl KernelError
             | Some grad_weight \<Rightarrow> Inr [Some grad_weight, None, None, None])
      | _ \<Rightarrow> Inl InternalError)"

definition lookup_batched_unary_embedding_function ::
  "('t \<Rightarrow> 't \<Rightarrow> 't \<Rightarrow> 't \<Rightarrow> 't option) \<Rightarrow> 't \<Rightarrow> 't \<Rightarrow> 't \<Rightarrow> 't \<Rightarrow> error + 't" where
  "lookup_batched_unary_embedding_function batched_unary_embeddings_forward_cuda
       weight table_offsets offsets indices =
     (case LookupFunctionBatchedUnaryEmbeddingOp_forward batched_unary_embeddings_forward_cuda
             new_context weight table_offsets offsets indices of
        Inl e \<Rightarrow> Inl e
      | Inr (ctx, res) \<Rightarrow> Inr (res ! 0))"

section \<open>IndexSelectDim0GPUOp\<close>

text \<open>
  The operator takes its two kernels as parameters: the gather
  (\<^verbatim>\<open>index_select_cuda\<close>: input, indices, original positions or an undefined tensor, and
  the flag \<^verbatim>\<open>indices_sorted\<close>) and the scatter
  (\<^verbatim>\<open>index_add_with_unique_indices_cuda\<close>). The two \<^verbatim>\<open>int\<close> parameters are 32-bit.
  In \<open>forward\<close> the pair \<open>(sorted_indices, orig_indices)\<close> is only used on the branch that
  sorts; on the other branch both tensors stay undefined and the kernel receives the raw
  indices and an undefined \<open>orig_indices\<close>.
\<close>

type_synonym 'a index_select_kernel =
  "'a tensor \<Rightarrow> int tensor \<Rightarrow> int tensor option \<Rightarrow> bool \<Rightarrow> 'a tensor option"

type_synonym 'a index_add_kernel =
  "'a tensor \<Rightarrow> int tensor \<Rightarrow> int tensor \<Rightarrow> nat list \<Rightarrow> 32 word \<Rightarrow> 32 word \<Rightarrow> 'a tensor option"

definition IndexSelectDim0GPUOp_forward ::
  "'a index_select_kernel \<Rightarrow> int tensor autograd_context \<Rightarrow> 'a tensor \<Rightarrow> int tensor \<Rightarrow>
   32 word \<Rightarrow> 32 word \<Rightarrow> bool \<Rightarrow> error + (int tensor autograd_context \<times> 'a tensor list)" where
  "IndexSelectDim0GPUOp_forward index_select ctx input indices
       consecutive_range_start consecutive_range_length skip_indices_sorting_fwd =
     (if \<not> is_cuda input then Inl NotCudaTensor
      else if \<not> is_cuda indices then Inl NotCudaTensor
      else if \<not> same_device input indices then Inl DeviceMismatch
      else
        let (sorted_indices, orig_indices) = tensor_sort indices;
            ctx1 = (if skip_indices_sorting_fwd
                    then ctx\<lparr>saved_variables := [indices]\<rparr>
                    else ctx\<lparr>saved_variables := [sorted_indices, orig_indices]\<rparr>);
            ctx2 = ctx1\<lparr>saved_data := (saved_data ctx1)
                     (''input_shape'' \<mapsto> IVIntList (sizes input))\<rparr>;
            ctx3 = ctx2\<lparr>saved_data := (saved_data ctx2)
                     (''consecutive_range_start'' \<mapsto> IVInt (sint consecutive_range_start))\<rparr>;
            ctx4 = ctx3\<lparr>saved_data := (saved_data ctx3)
                     (''consecutive_range_length'' \<mapsto> IVInt (sint consecutive_range_length))\<rparr>;
            ctx5 = ctx4\<lparr>saved_data := (saved_data ctx4)
                     (''skip_indices_sorting_fwd'' \<mapsto> IVBool skip_indices_sorting_fwd)\<rparr>
        in case index_select input
                  (if skip_indices_sorting_fwd then indices else sorted_indices)
                  (if skip_indices_sorting_fwd then None else Some orig_indices)
                  (\<not> skip_indices_sorting_fwd) of
             None \<Rightarrow> Inl KernelError
           | Some output \<Rightarrow> Inr (ctx5, [output]))"

definition IndexSelectDim0GPUOp_backward ::
  "'a index_add_kernel \<Rightarrow> int tensor autograd_context \<Rightarrow> 'a tensor list \<Rightarrow>
   error + 'a tensor option list" where
  "IndexSelectDim0GPUOp_backward index_add ctx grad_outputs =
     (if length grad_outputs \<noteq> 1 then Inl InvalidArgument
      else if \<not> is_cuda (grad_outputs ! 0) then Inl NotCudaTensor
      else
        case toBool (saved_data ctx ''skip_indices_sorting_fwd'') of
          Inl e \<Rightarrow> Inl e
        | Inr skip_indices_sorting_fwd \<Rightarrow>
        (case (if skip_indices_sorting_fwd
               then (case saved_variables ctx of
                       indices # _ \<Rightarrow> Inr (tensor_sort indices)
                     | _ \<Rightarrow> Inl InternalError)
               else (case saved_variables ctx of
                       sorted_indices # orig_indices # _ \<Rightarrow> Inr (sorted_indices, orig_indices)
                     | _ \<Rightarrow> Inl InternalError)) of
          Inl e \<Rightarrow> Inl e
        | Inr (sorted_indices, orig_indices) \<Rightarrow>
            if \<not> is_cuda sorted_indices then Inl NotCudaTensor
            else if \<not> is_cuda orig_indices then Inl NotCudaTensor
            else
              let grad_output = grad_outputs ! 0 in
              if \<not> same_device grad_output sorted_indices then Inl DeviceMismatch
              else
                (case toIntVector (saved_data ctx ''input_shape'') of
                  Inl e \<Rightarrow> Inl e
                | Inr input_shape \<Rightarrow>
                (case toInt (saved_data ctx ''consecutive_range_start'') of
                  Inl e \<Rightarrow> Inl e
                | Inr range_start \<Rightarrow>
                (case toInt (saved_data ctx ''consecutive_range_length'') of
                  Inl e \<Rightarrow> Inl e
                | Inr range_length \<Rightarrow>
                (case index_add grad_output sorted_indices orig_indices input_shape
                        (to_int32 range_start) (to_int32 range_length) of
                  None \<Rightarrow> Inl KernelError
                | Some grad_input \<Rightarrow> Inr [Some grad_input, None, None, None, None]))))))"


section \<open>The kernels behind IndexSelectDim0GPUOp\<close>

text \<open>
  Both kernels are defined in the CUDA sources, which are not part of the sources at hand;
  they are modelled from their contracts. An index is valid for \<open>n\<close> rows when it lies in
  \<open>[0, n)\<close>.
\<close>

definition in_range :: "nat \<Rightarrow> int \<Rightarrow> bool" where
  "in_range n k = (0 \<le> k \<and> k < int n)"

text \<open>
  Modelled from the spec: the loop of the missing kernel \<^verbatim>\<open>index_select_cuda\<close> on sorted
  indices. For each sorted position, holding the index \<open>k\<close> that came from position \<open>i\<close>, the
  input row \<open>k\<close> is written to the output row \<open>i\<close>.
\<close>

fun gather_sorted :: "'a list \<Rightarrow> 'a list \<Rightarrow> (nat \<times> nat) list \<Rightarrow> 'a list" where
  "gather_sorted inp out [] = out"
| "gather_sorted inp out ((k, i) # ps) = gather_sorted inp (out[i := inp ! k]) ps"

text \<open>
  Modelled from the spec: the missing kernel \<^verbatim>\<open>index_select_cuda\<close>. Its contract is
  \<open>(input, sorted_or_raw_indices, orig_indices?, indices_sorted) \<rightarrow> output[len(indices), \<dots>]\<close>:
  a gather of rows of \<open>input\<close>, whose output has the leading length of the indices and the
  trailing dimensions of \<open>input\<close>. With raw indices, row \<open>r\<close> of the output is the input row
  at \<open>indices[r]\<close>. With sorted indices, the row read at \<open>sorted_indices[r]\<close> is written to the
  output row \<open>orig_indices[r]\<close>, the position the index came from. An index outside the rows
  of \<open>input\<close> is a kernel failure. The output buffer starts out with zero rows.
\<close>

definition index_select_cuda :: "('a::zero) index_select_kernel" where
  "index_select_cuda input indices orig_indices indices_sorted =
     (case sizes input of
        [] \<Rightarrow> None
      | input_size # trailing \<Rightarrow>
          let N = length (elems indices) in
          if \<not> list_all (in_range input_size) (elems indices) then None
          else if indices_sorted then
            (case orig_indices of
               None \<Rightarrow> None
             | Some orig \<Rightarrow>
                 if length (elems orig) \<noteq> N \<or> \<not> list_all (in_range N) (elems orig) then None
                 else Some \<lparr>get_device = get_device input, sizes = N # trailing,
                            elems = gather_sorted (elems input) (replicate N 0)
                                      (zip (map nat (elems indices)) (map nat (elems orig)))\<rparr>)
          else Some \<lparr>get_device = get_device input, sizes = N # trailing,
                     elems = map (\<lambda>k. elems input ! nat k) (elems indices)\<rparr>)"

text \<open>
  Modelled from the spec: the general accumulation of the missing kernel
  \<^verbatim>\<open>index_add_with_unique_indices_cuda\<close>. Every sorted position, holding the index \<open>k\<close> that
  came from position \<open>i\<close>, is added to its row in turn: \<open>grad_input[k] += grad_output[i]\<close>.
\<close>

fun scatter_add :: "('a::comm_monoid_add) list \<Rightarrow> 'a list \<Rightarrow> (nat \<times> nat) list \<Rightarrow> 'a list" where
  "scatter_add g acc [] = acc"
| "scatter_add g acc ((k, i) # ps) = scatter_add g (acc[k := acc ! k + g ! i]) ps"

text \<open>
  Modelled from the spec: the sum of the gradient rows of the run of sorted positions that
  hold the index \<open>k\<close>, as the range path of the missing kernel
  \<^verbatim>\<open>index_add_with_unique_indices_cuda\<close> forms it.
\<close>

definition run_sum :: "('a::comm_monoid_add) list \<Rightarrow> (nat \<times> nat) list \<Rightarrow> nat \<Rightarrow> 'a" where
  "run_sum g ps k = sum_list (map (\<lambda>p. g ! snd p) (filter (\<lambda>p. fst p = k) ps))"

text \<open>
  Modelled from the spec: the range path of the missing kernel
  \<^verbatim>\<open>index_add_with_unique_indices_cuda\<close>. It visits the rows of the consecutive range only
  and stores into each of them the sum of its run.
\<close>

fun range_add ::
  "('a::comm_monoid_add) list \<Rightarrow> (nat \<times> nat) list \<Rightarrow> 'a list \<Rightarrow> nat list \<Rightarrow> 'a list" where
  "range_add g ps acc [] = acc"
| "range_add g ps acc (k # ks) = range_add g ps (acc[k := run_sum g ps k]) ks"

text \<open>
  Modelled from the spec: the missing kernel \<^verbatim>\<open>index_add_with_unique_indices_cuda\<close>. Its
  contract is
  \<open>(grad_output, sorted_indices, orig_indices, input_shape, range_start, range_length)
  \<rightarrow> grad_input\<close>: a zero tensor shaped like \<open>input_shape\<close> into which the rows of
  \<open>grad_output\<close> are scatter-added, \<open>grad_input[k] += grad_output[i]\<close> for each occurrence
  \<open>i\<close> of index \<open>k\<close>. The two range parameters are a hint that selects the faster
  accumulation: when a range is given (a non-negative start and a positive length), the
  range path runs over the rows \<open>start, \<dots>, start + length - 1\<close>; without a range, the
  general path runs over every sorted position. An index outside the rows of \<open>input_shape\<close>,
  or a gradient whose number of rows differs from the number of indices, is a kernel
  failure.
\<close>

definition index_add_with_unique_indices_cuda :: "('a::comm_monoid_add) index_add_kernel" where
  "index_add_with_unique_indices_cuda grad_output sorted_indices orig_indices input_shape
       consecutive_range_start consecutive_range_length =
     (case input_shape of
        [] \<Rightarrow> None
      | input_size # trailing \<Rightarrow>
          let N = length (elems grad_output) in
          if length (elems sorted_indices) \<noteq> N \<or> length (elems orig_indices) \<noteq> N then None
          else if \<not> list_all (in_range input_size) (elems sorted_indices) then None
          else if \<not> list_all (in_range N) (elems orig_indices) then None
          else
            let ps = zip (map nat (elems sorted_indices)) (map nat (elems orig_indices));
                zeros = replicate input_size 0;
                start = sint consecutive_range_start;
                len = sint consecutive_range_length
            in Some \<lparr>get_device = get_device grad_output, sizes = input_shape,
                     elems = (if 0 \<le> start \<and> 0 < len
                              then range_add (elems grad_output) ps zeros
                                     [nat start ..< nat start + nat len]
                              else scatter_add (elems grad_output) zeros ps)\<rparr>)"

text \<open>
  The (destination, source) pairs a kernel walks through when it is given the result of
  \<open>tensor_sort\<close>: position \<open>r\<close> pairs the index value \<open>sorted_indices[r]\<close> with the original
  position \<open>orig_indices[r]\<close>.
\<close>

definition sorted_pairs :: "int tensor \<Rightarrow> (nat \<times> nat) list" where
  "sorted_pairs indices =
     zip (map nat (elems (fst (tensor_sort indices)))) (map nat (elems (snd (tensor_sort indices))))"

section \<open>Example tensors\<close>

definition example_input :: "int tensor" where
  "example_input = \<lparr>get_device = CUDA 0, sizes = [3], elems = [10, 20, 30]\<rparr>"

definition example_indices :: "int tensor" where
  "example_indices = \<lparr>get_device = CUDA 0, sizes = [3], elems = [2, 0, 2]\<rparr>"

definition example_grad :: "int tensor" where
  "example_grad = \<lparr>get_device = CUDA 0, sizes = [3], elems = [1, 10, 100]\<rparr>"

definition example_cpu_input :: "int tensor" where
  "example_cpu_input = \<lparr>get_device = CPU, sizes = [3], elems = [10, 20, 30]\<rparr>"

definition example_lengths :: "int tensor" where
  "example_lengths = \<lparr>get_device = CUDA 0, sizes = [2], elems = [2, 1]\<rparr>"

definition example_empty :: "int tensor" where
  "example_empty = \<lparr>get_device = CUDA 0, sizes = [0], elems = []\<rparr>"

text \<open>Stand-ins for the external kernels of the other two operators.\<close>

definition example_pack_forward :: "int tensor \<Rightarrow> int tensor \<Rightarrow> int \<Rightarrow> int tensor option" where
  "example_pack_forward t_in lengths max_length = Some t_in"

definition example_pack_backward ::
  "int tensor \<Rightarrow> int tensor \<Rightarrow> int \<Rightarrow> int \<Rightarrow> int tensor option" where
  "example_pack_backward grad lengths total_length max_length = Some grad"

definition example_embedding_forward ::
  "int tensor \<Rightarrow> int tensor \<Rightarrow> int tensor \<Rightarrow> int tensor \<Rightarrow> int tensor option" where
  "example_embedding_forward weight table_offsets offsets indices = Some weight"

definition example_embedding_backward ::
  "int tensor \<Rightarrow> int tensor \<Rightarrow> int tensor \<Rightarrow> int tensor \<Rightarrow> int tensor \<Rightarrow> int tensor option" where
  "example_embedding_backward grad weight table_offsets offsets indices = Some grad"

section \<open>The context handed from forward to backward\<close>

lemma forward_Inr_D:
  assumes "IndexSelectDim0GPUOp_forward K ctx input indices s l skip = Inr (ctx', outs)"
  shows "is_cuda input \<and> is_cuda indices \<and> same_device input indices"
    and "saved_variables ctx' =
           (if skip then [indices] else [fst (tensor_sort indices), snd (tensor_sort indices)])"
    and "saved_data ctx' ''skip_indices_sorting_fwd'' = Some (IVBool skip)"
    and "saved_data ctx' ''input_shape'' = Some (IVIntList (sizes input))"
    and "saved_data ctx' ''consecutive_range_start'' = Some (IVInt (sint s))"
    and "saved_data ctx' ''consecutive_range_length'' = Some (IVInt (sint l))"
    and "\<exists>out. outs = [out] \<and>
           K input (if skip then indices else fst (tensor_sort indices))
             (if skip then None else Some (snd (tensor_sort indices))) (\<not> skip) = Some out"
  using assms
  by (auto simp: IndexSelectDim0GPUOp_forward_def Let_def split: if_splits prod.splits option.splits)

lemma tensor_sort_device:
  "get_device (fst (tensor_sort t)) = get_device t" "get_device (snd (tensor_sort t)) = get_device t"
  by (simp_all add: tensor_sort_def Let_def)

lemma backward_after_forward:
  assumes "IndexSelectDim0GPUOp_forward K ctx input indices s l skip = Inr (ctx', outs)"
  shows "IndexSelectDim0GPUOp_backward A ctx' gs =
     (if length gs \<noteq> 1 then Inl InvalidArgument
      else if \<not> is_cuda (gs ! 0) then Inl NotCudaTensor
      else if \<not> same_device (gs ! 0) indices then Inl DeviceMismatch
      else case A (gs ! 0) (fst (tensor_sort indices)) (snd (tensor_sort indices))
                  (sizes input) s l of
             None \<Rightarrow> Inl KernelError
           | Some grad_input \<Rightarrow> Inr [Some grad_input, None, None, None, None])"
proof -
  note D = forward_Inr_D [OF assms]
  have c: "is_cuda (fst (tensor_sort indices))" "is_cuda (snd (tensor_sort indices))"
    using D(1) by (simp_all add: is_cuda_def tensor_sort_device)
  have sd: "same_device (gs ! 0) (fst (tensor_sort indices)) = same_device (gs ! 0) indices"
    by (simp add: same_device_def tensor_sort_device)
  show ?thesis
  proof (cases skip)
    case True
    then show ?thesis
      using D(1) c sd
      by (simp add: IndexSelectDim0GPUOp_backward_def D(2-6) toBool_def toInt_def toIntVector_def
            to_int32_def Let_def split_beta)
  next
    case False
    then show ?thesis
      using D(1) c sd
      by (simp add: IndexSelectDim0GPUOp_backward_def D(2-6) toBool_def toInt_def toIntVector_def
            to_int32_def Let_def split_beta)
  qed
qed

section \<open>Gather and scatter over a sorted permutation\<close>

lemma length_scatter_add: "length (scatter_add g acc ps) = length acc"
  by (induction g acc ps rule: scatter_add.induct) simp_all

lemma run_sum_Nil: "run_sum g [] k = 0"
  by (simp add: run_sum_def)

lemma run_sum_Cons:
  "run_sum g ((k', i) # ps) k = (if k' = k then g ! i + run_sum g ps k else run_sum g ps k)"
  by (simp add: run_sum_def)

lemma scatter_add_nth:
  "k < length acc \<Longrightarrow> scatter_add g acc ps ! k = acc ! k + run_sum g ps k"
proof (induction g acc ps rule: scatter_add.induct)
  case (1 g acc)
  then show ?case by (simp add: run_sum_Nil)
next
  case (2 g acc k' i ps)
  then show ?case
    by (simp add: run_sum_Cons nth_list_update add.assoc)
qed

lemma length_range_add: "length (range_add g ps acc ks) = length acc"
  by (induction g ps acc ks rule: range_add.induct) simp_all

lemma range_add_nth:
  "k < length acc \<Longrightarrow> distinct ks \<Longrightarrow>
   range_add g ps acc ks ! k = (if k \<in> set ks then run_sum g ps k else acc ! k)"
proof (induction g ps acc ks rule: range_add.induct)
  case (1 g ps acc)
  then show ?case by simp
next
  case (2 g ps acc k' ks)
  then show ?case
    by (auto simp: nth_list_update)
qed

lemma run_sum_mset:
  "run_sum g ps k = sum_mset (image_mset (\<lambda>p. g ! snd p) (filter_mset (\<lambda>p. fst p = k) (mset ps)))"
  unfolding run_sum_def
  by (metis mset_filter mset_map sum_mset_sum_list)

lemma run_sum_cong_mset: "mset ps = mset qs \<Longrightarrow> run_sum g ps k = run_sum g qs k"
  by (simp add: run_sum_mset)

lemma zip_upt_map: "zip xs [0..<length xs] = map (\<lambda>i. (xs ! i, i)) [0..<length xs]"
  by (rule nth_equalityI) simp_all

lemma run_sum_positions:
  "run_sum g (map (\<lambda>i. (f i, i)) [0..<n]) k = (\<Sum>i | i < n \<and> f i = k. g ! i)"
proof -
  have "run_sum g (map (\<lambda>i. (f i, i)) [0..<n]) k
        = sum_list (map (\<lambda>i. g ! i) (filter (\<lambda>i. f i = k) [0..<n]))"
    by (simp add: run_sum_def filter_map comp_def)
  also have "\<dots> = sum (\<lambda>i. g ! i) (set (filter (\<lambda>i. f i = k) [0..<n]))"
    by (rule sum_list_distinct_conv_sum_set) simp
  also have "set (filter (\<lambda>i. f i = k) [0..<n]) = {i. i < n \<and> f i = k}"
    by auto
  finally show ?thesis .
qed

lemma sorted_pairs_eq:
  "sorted_pairs t = map (\<lambda>q. (nat (fst q), snd q)) (sort_key fst (zip (elems t) [0..<length (elems t)]))"
  by (simp add: sorted_pairs_def tensor_sort_def Let_def zip_map_map comp_def)
    (simp add: zip_same_conv_map)

lemma mset_sorted_pairs:
  "mset (sorted_pairs t) = mset (map (\<lambda>i. (nat (elems t ! i), i)) [0..<length (elems t)])"
proof -
  let ?h = "\<lambda>q::int \<times> nat. (nat (fst q), snd q)"
  have "mset (sorted_pairs t) = mset (map ?h (zip (elems t) [0..<length (elems t)]))"
    by (simp only: sorted_pairs_eq mset_map mset_sort)
  also have "\<dots> = mset (map ?h (map (\<lambda>i. (elems t ! i, i)) [0..<length (elems t)]))"
    by (simp only: zip_upt_map)
  also have "map ?h (map (\<lambda>i. (elems t ! i, i)) [0..<length (elems t)])
             = map (\<lambda>i. (nat (elems t ! i), i)) [0..<length (elems t)]"
    by (simp add: comp_def)
  finally show ?thesis .
qed

lemma run_sum_sorted_pairs:
  "run_sum g (sorted_pairs t) k = (\<Sum>i | i < length (elems t) \<and> nat (elems t ! i) = k. g ! i)"
  by (simp only: run_sum_cong_mset [OF mset_sorted_pairs] run_sum_positions)

lemma length_sorted_pairs: "length (sorted_pairs t) = length (elems t)"
  by (simp add: sorted_pairs_eq)

lemma map_snd_sorted_pairs: "mset (map snd (sorted_pairs t)) = mset [0..<length (elems t)]"
proof -
  have "mset (map snd (sorted_pairs t)) = image_mset snd (mset (sorted_pairs t))"
    by simp
  also have "\<dots> = mset (map snd (map (\<lambda>i. (nat (elems t ! i), i)) [0..<length (elems t)]))"
    by (simp only: mset_sorted_pairs mset_map)
  also have "map snd (map (\<lambda>i. (nat (elems t ! i), i)) [0..<length (elems t)]) = [0..<length (elems t)]"
    by (simp add: comp_def)
  finally show ?thesis .
qed

lemma distinct_snd_sorted_pairs: "distinct (map snd (sorted_pairs t))"
  using map_snd_sorted_pairs [of t] distinct_upt mset_eq_imp_distinct_iff by blast

lemma set_sorted_pairs:
  "set (sorted_pairs t) = (\<lambda>i. (nat (elems t ! i), i)) ` {0..<length (elems t)}"
proof -
  have "set (sorted_pairs t) = set (map (\<lambda>i. (nat (elems t ! i), i)) [0..<length (elems t)])"
    using mset_sorted_pairs [of t] by (rule mset_eq_setD)
  then show ?thesis by simp
qed

lemma tensor_sort_elems:
  "set (elems (fst (tensor_sort t))) = set (elems t)"
  "length (elems (fst (tensor_sort t))) = length (elems t)"
  "length (elems (snd (tensor_sort t))) = length (elems t)"
  "set (elems (snd (tensor_sort t))) = int ` {0..<length (elems t)}"
proof -
  let ?zs = "zip (elems t) [0..<length (elems t)]"
  have z1: "map fst ?zs = elems t"
    by (rule map_fst_zip) simp
  have z2: "map snd ?zs = [0..<length (elems t)]"
    by (rule map_snd_zip) simp
  have e1: "elems (fst (tensor_sort t)) = map fst (sort_key fst ?zs)"
    and e2: "elems (snd (tensor_sort t)) = map int (map snd (sort_key fst ?zs))"
    by (simp_all add: tensor_sort_def Let_def)
  have "set (map fst (sort_key fst ?zs)) = set (map fst ?zs)"
    by (simp only: set_map set_sort)
  then show "set (elems (fst (tensor_sort t))) = set (elems t)"
    by (simp only: e1 z1)
  show "length (elems (fst (tensor_sort t))) = length (elems t)"
    "length (elems (snd (tensor_sort t))) = length (elems t)"
    by (simp_all add: e1 e2)
  have "set (map snd (sort_key fst ?zs)) = set (map snd ?zs)"
    by (simp only: set_map set_sort)
  then have "set (map snd (sort_key fst ?zs)) = {0..<length (elems t)}"
    by (simp only: z2 set_upt)
  then show "set (elems (snd (tensor_sort t))) = int ` {0..<length (elems t)}"
    by (simp only: e2 set_map)
qed

lemma length_gather_sorted: "length (gather_sorted inp out ps) = length out"
  by (induction inp out ps rule: gather_sorted.induct) simp_all

lemma gather_sorted_untouched:
  "i \<notin> snd ` set ps \<Longrightarrow> gather_sorted inp out ps ! i = out ! i"
  by (induction inp out ps rule: gather_sorted.induct) (auto simp: nth_list_update)

lemma gather_sorted_nth:
  "distinct (map snd ps) \<Longrightarrow> (k, i) \<in> set ps \<Longrightarrow> i < length out \<Longrightarrow>
   gather_sorted inp out ps ! i = inp ! k"
proof (induction inp out ps rule: gather_sorted.induct)
  case (1 inp out)
  then show ?case by simp
next
  case (2 inp out k' i' ps)
  show ?case
  proof (cases "(k, i) = (k', i')")
    case True
    with 2 show ?thesis by (simp add: gather_sorted_untouched)
  next
    case False
    with 2 show ?thesis by auto
  qed
qed

section \<open>The kernels on the result of a sort\<close>

lemma index_select_cuda_sorted:
  "index_select_cuda input (fst (tensor_sort t)) (Some (snd (tensor_sort t))) True
   = index_select_cuda input t None False"
proof (cases "sizes input")
  case Nil
  then show ?thesis by (simp add: index_select_cuda_def)
next
  case (Cons n trailing)
  let ?N = "length (elems t)"
  have chk: "list_all (in_range n) (elems (fst (tensor_sort t))) = list_all (in_range n) (elems t)"
    by (simp only: list_all_iff tensor_sort_elems)
  have orig: "list_all (in_range ?N) (elems (snd (tensor_sort t)))"
    by (auto simp: list_all_iff tensor_sort_elems in_range_def)
  have el: "gather_sorted (elems input) (replicate ?N 0) (sorted_pairs t)
            = map (\<lambda>k. elems input ! nat k) (elems t)"
  proof (rule nth_equalityI)
    show "length (gather_sorted (elems input) (replicate ?N 0) (sorted_pairs t))
          = length (map (\<lambda>k. elems input ! nat k) (elems t))"
      by (simp add: length_gather_sorted)
  next
    fix i
    assume "i < length (gather_sorted (elems input) (replicate ?N 0) (sorted_pairs t))"
    then have i: "i < ?N"
      by (simp add: length_gather_sorted)
    then have "(nat (elems t ! i), i) \<in> set (sorted_pairs t)"
      by (simp add: set_sorted_pairs)
    then have "gather_sorted (elems input) (replicate ?N 0) (sorted_pairs t) ! i
               = elems input ! nat (elems t ! i)"
      using i by (intro gather_sorted_nth distinct_snd_sorted_pairs) simp_all
    then show "gather_sorted (elems input) (replicate ?N 0) (sorted_pairs t) ! i
               = map (\<lambda>k. elems input ! nat k) (elems t) ! i"
      using i by simp
  qed
  show ?thesis
    using Cons chk orig el
    by (simp add: index_select_cuda_def Let_def tensor_sort_elems sorted_pairs_def)
qed

lemma index_select_cuda_rows:
  assumes "index_select_cuda input t None False = Some out"
  shows "sizes out = length (elems t) # tl (sizes input)"
    and "get_device out = get_device input"
    and "elems out = map (\<lambda>k. elems input ! nat k) (elems t)"
  using assms
  by (auto simp: index_select_cuda_def Let_def split: list.splits if_splits)

lemma positions_set:
  assumes "list_all (in_range n) xs"
  shows "{i. i < length xs \<and> nat (xs ! i) = k} = {i. i < length xs \<and> xs ! i = int k}"
proof -
  have "0 \<le> xs ! i" if "i < length xs" for i
    using assms that by (simp add: list_all_length in_range_def)
  then show ?thesis by auto
qed

lemma scatter_add_sorted_pairs:
  assumes "k < n" "list_all (in_range m) (elems t)"
  shows "scatter_add g (replicate n 0) (sorted_pairs t) ! k
         = (\<Sum>i | i < length (elems t) \<and> elems t ! i = int k. g ! i)"
  using assms
  by (simp add: scatter_add_nth run_sum_sorted_pairs positions_set)

lemma range_add_sorted_pairs:
  assumes k: "k < n" and rng: "list_all (in_range m) (elems t)"
    and a: "0 \<le> a" and guar: "\<forall>x\<in>set (elems t). a \<le> x \<and> x < a + b"
  shows "range_add g (sorted_pairs t) (replicate n 0) [nat a..<nat a + nat b] ! k
         = (\<Sum>i | i < length (elems t) \<and> elems t ! i = int k. g ! i)"
proof -
  let ?ks = "[nat a..<nat a + nat b]"
  have nth: "range_add g (sorted_pairs t) (replicate n 0) ?ks ! k
             = (if k \<in> set ?ks then run_sum g (sorted_pairs t) k else replicate n 0 ! k)"
    using k by (intro range_add_nth) simp_all
  show ?thesis
  proof (cases "k \<in> set ?ks")
    case True
    then have "range_add g (sorted_pairs t) (replicate n 0) ?ks ! k = run_sum g (sorted_pairs t) k"
      by (simp only: nth if_True)
    then show ?thesis
      using rng by (simp add: run_sum_sorted_pairs positions_set)
  next
    case False
    have "elems t ! i \<noteq> int k" if "i < length (elems t)" for i
    proof -
      from that guar have "a \<le> elems t ! i \<and> elems t ! i < a + b"
        by simp
      with a False show ?thesis by auto
    qed
    then have empty: "{i. i < length (elems t) \<and> elems t ! i = int k} = {}"
      by auto
    from False have "range_add g (sorted_pairs t) (replicate n 0) ?ks ! k = replicate n 0 ! k"
      by (simp only: nth if_False)
    also have "\<dots> = 0"
      using k by simp
    finally show ?thesis
      by (simp only: empty sum.empty)
  qed
qed

lemma index_add_Some_D:
  assumes "index_add_with_unique_indices_cuda g (fst (tensor_sort t)) (snd (tensor_sort t))
             shape s l = Some r"
  shows "sizes r = shape" and "get_device r = get_device g" and "shape \<noteq> []"
    and "length (elems g) = length (elems t)"
    and "list_all (in_range (hd shape)) (elems t)"
    and "elems r = (if 0 \<le> sint s \<and> 0 < sint l
                    then range_add (elems g) (sorted_pairs t) (replicate (hd shape) 0)
                           [nat (sint s)..<nat (sint s) + nat (sint l)]
                    else scatter_add (elems g) (replicate (hd shape) 0) (sorted_pairs t))"
proof -
  have chk: "list_all (in_range n) (elems (fst (tensor_sort t))) = list_all (in_range n) (elems t)"
    for n
    by (simp only: list_all_iff tensor_sort_elems)
  from assms show "sizes r = shape" and "get_device r = get_device g" and "shape \<noteq> []"
    and "length (elems g) = length (elems t)"
    and "elems r = (if 0 \<le> sint s \<and> 0 < sint l
                    then range_add (elems g) (sorted_pairs t) (replicate (hd shape) 0)
                           [nat (sint s)..<nat (sint s) + nat (sint l)]
                    else scatter_add (elems g) (replicate (hd shape) 0) (sorted_pairs t))"
    by (auto simp: index_add_with_unique_indices_cuda_def Let_def tensor_sort_elems
        sorted_pairs_def split: list.splits if_splits)
  from assms show "list_all (in_range (hd shape)) (elems t)"
    by (auto simp: index_add_with_unique_indices_cuda_def Let_def tensor_sort_elems chk
        split: list.splits if_splits)
qed

lemma index_add_None_iff:
  "index_add_with_unique_indices_cuda g (fst (tensor_sort t)) (snd (tensor_sort t)) shape s l = None
   \<longleftrightarrow> shape = [] \<or> length (elems g) \<noteq> length (elems t)
        \<or> \<not> list_all (in_range (hd shape)) (elems t)"
proof -
  have chk: "list_all (in_range n) (elems (fst (tensor_sort t))) = list_all (in_range n) (elems t)"
    for n
    by (simp only: list_all_iff tensor_sort_elems)
  have orig: "length (elems g) = length (elems t) \<Longrightarrow>
              list_all (in_range (length (elems g))) (elems (snd (tensor_sort t)))"
    by (auto simp: list_all_iff tensor_sort_elems in_range_def)
  show ?thesis
    using orig
    by (auto simp: index_add_with_unique_indices_cuda_def Let_def tensor_sort_elems chk
        split: list.splits)
qed

lemma index_add_elems_nth:
  assumes r: "index_add_with_unique_indices_cuda g (fst (tensor_sort t)) (snd (tensor_sort t))
             shape s l = Some r"
    and hint: "0 \<le> sint s \<and> 0 < sint l \<longrightarrow>
               (\<forall>x\<in>set (elems t). sint s \<le> x \<and> x < sint s + sint l)"
    and k: "k < hd shape"
  shows "elems r ! k = (\<Sum>i | i < length (elems t) \<and> elems t ! i = int k. elems g ! i)"
proof -
  note D = index_add_Some_D [OF r]
  show ?thesis
  proof (cases "0 \<le> sint s \<and> 0 < sint l")
    case True
    with hint have "\<forall>x\<in>set (elems t). sint s \<le> x \<and> x < sint s + sint l"
      by blast
    moreover from True
    have "elems r = range_add (elems g) (sorted_pairs t) (replicate (hd shape) 0)
                      [nat (sint s)..<nat (sint s) + nat (sint l)]"
      using D(6) by simp
    ultimately show ?thesis
      using True k D(5) by (simp add: range_add_sorted_pairs)
  next
    case False
    then have "elems r = scatter_add (elems g) (replicate (hd shape) 0) (sorted_pairs t)"
      using D(6) by auto
    with k D(5) show ?thesis
      by (simp add: scatter_add_sorted_pairs)
  qed
qed

lemma index_add_length:
  assumes "index_add_with_unique_indices_cuda g (fst (tensor_sort t)) (snd (tensor_sort t))
             shape s l = Some r"
  shows "length (elems r) = hd shape"
  using index_add_Some_D(6) [OF assms]
  by (simp add: length_range_add length_scatter_add)

lemma index_add_hint_free:
  assumes guar: "\<forall>x\<in>set (elems t). sint s \<le> x \<and> x < sint s + sint l"
  shows "index_add_with_unique_indices_cuda g (fst (tensor_sort t)) (snd (tensor_sort t)) shape s l
         = index_add_with_unique_indices_cuda g (fst (tensor_sort t)) (snd (tensor_sort t)) shape 0 0"
    (is "?A = ?B")
proof (cases ?A)
  case None
  then have "?B = None"
    by (simp only: index_add_None_iff)
  with None show ?thesis by simp
next
  case (Some r)
  then have "?A \<noteq> None"
    by simp
  moreover have "(?A = None) = (?B = None)"
    by (simp only: index_add_None_iff)
  ultimately have "?B \<noteq> None"
    by simp
  then obtain r0 where r0: "?B = Some r0"
    by blast
  note D = index_add_Some_D [OF Some] and D0 = index_add_Some_D [OF r0]
  have "elems r = elems r0"
  proof (rule nth_equalityI)
    show "length (elems r) = length (elems r0)"
      by (simp add: index_add_length [OF Some] index_add_length [OF r0])
  next
    fix k
    assume "k < length (elems r)"
    then have k: "k < hd shape"
      by (simp add: index_add_length [OF Some])
    show "elems r ! k = elems r0 ! k"
      using index_add_elems_nth [OF Some _ k] index_add_elems_nth [OF r0 _ k] guar
      by simp
  qed
  then have "r = r0"
    using D(1,2) D0(1,2) by simp
  with Some r0 show ?thesis by simp
qed

section \<open>Arity of the gradient outputs\<close>

lemma toInt_Inl: "toInt v = Inl e \<Longrightarrow> e = InternalError"
  by (auto simp: toInt_def split: option.splits ivalue.splits)

lemma toBool_cases: "toBool v = Inl InternalError \<or> (\<exists>b. toBool v = Inr b)"
  by (auto simp: toBool_def split: option.splits ivalue.splits)

lemma toInt_cases: "toInt v = Inl InternalError \<or> (\<exists>b. toInt v = Inr b)"
  by (auto simp: toInt_def split: option.splits ivalue.splits)

lemma toIntVector_cases: "toIntVector v = Inl InternalError \<or> (\<exists>b. toIntVector v = Inr b)"
  by (auto simp: toIntVector_def split: option.splits ivalue.splits)

lemma backward_not_InvalidArgument:
  assumes "length grad_outputs = 1"
  shows "IndexSelectDim0GPUOp_backward index_add ctx grad_outputs \<noteq> Inl InvalidArgument"
proof -
  consider (a) "toBool (saved_data ctx ''skip_indices_sorting_fwd'') = Inl InternalError"
    | (b) b where "toBool (saved_data ctx ''skip_indices_sorting_fwd'') = Inr b"
    using toBool_cases by blast
  then show ?thesis
  proof cases
    case a
    then show ?thesis using assms by (simp add: IndexSelectDim0GPUOp_backward_def)
  next
    case b
    consider (c) "toIntVector (saved_data ctx ''input_shape'') = Inl InternalError"
      | (d) sh where "toIntVector (saved_data ctx ''input_shape'') = Inr sh"
      using toIntVector_cases by blast
    then show ?thesis
    proof cases
      case c
      then show ?thesis using assms b
        by (simp add: IndexSelectDim0GPUOp_backward_def Let_def split: list.splits prod.splits sum.splits)
    next
      case d
      consider (e) "toInt (saved_data ctx ''consecutive_range_start'') = Inl InternalError"
        | (f) st where "toInt (saved_data ctx ''consecutive_range_start'') = Inr st"
        using toInt_cases by blast
      then show ?thesis
      proof cases
        case e
        then show ?thesis using assms b d
          by (simp add: IndexSelectDim0GPUOp_backward_def Let_def split: list.splits prod.splits sum.splits)
      next
        case f
        consider (g) "toInt (saved_data ctx ''consecutive_range_length'') = Inl InternalError"
          | (h) ln where "toInt (saved_data ctx ''consecutive_range_length'') = Inr ln"
          using toInt_cases by blast
        then show ?thesis
        proof cases
          case g
          then show ?thesis using assms b d f
            by (simp add: IndexSelectDim0GPUOp_backward_def Let_def split: list.splits prod.splits sum.splits)
        next
          case h
          then show ?thesis using assms b d f
            by (simp add: IndexSelectDim0GPUOp_backward_def Let_def split: list.splits prod.splits sum.splits option.splits)
        qed
      qed
    qed
  qed
qed

text \<open>
  C10. \<open>IndexSelectDim0GPUOp::backward\<close> checks the number of gradient outputs before
  anything else: it fails with \<open>InvalidArgument\<close> exactly when it is not given exactly one
  gradient tensor, whatever the context and the kernel are.
\<close>

theorem index_select_backward_arity:
  "(IndexSelectDim0GPUOp_backward index_add ctx grad_outputs = Inl InvalidArgument)
   = (length grad_outputs \<noteq> 1)"
proof (cases "length grad_outputs = 1")
  case False
  then show ?thesis
    by (simp add: IndexSelectDim0GPUOp_backward_def)
next
  case True
  then show ?thesis
    by (simp add: backward_not_InvalidArgument)
qed

theorem index_select_backward_arity_witness:
  "IndexSelectDim0GPUOp_backward index_add_with_unique_indices_cuda new_context
     [example_grad, example_grad] = Inl InvalidArgument
   \<and> IndexSelectDim0GPUOp_backward index_add_with_unique_indices_cuda new_context
     ([] :: int tensor list) = Inl InvalidArgument
   \<and> IndexSelectDim0GPUOp_backward index_add_with_unique_indices_cuda new_context
     [example_grad] \<noteq> Inl InvalidArgument"
  using index_select_backward_arity [of index_add_with_unique_indices_cuda new_context
      "[example_grad, example_grad]"]
    index_select_backward_arity [of index_add_with_unique_indices_cuda new_context
      "[] :: int tensor list"]
    index_select_backward_arity [of index_add_with_unique_indices_cuda new_context
      "[example_grad]"]
  by simp

text \<open>
  C4. A backward pass fails with \<open>InvalidArgument\<close> exactly when the number of gradient
  outputs is wrong. \<open>PackSegments::backward\<close> accepts one or two gradient tensors and fails
  on any other number; with two, the second one is ignored. After its forward pass,
  \<open>LookupFunctionBatchedUnaryEmbeddingOp::backward\<close> accepts exactly one gradient tensor and
  fails on any other number.
\<close>

theorem backward_arity_checks:
  "(PackSegments_backward pack_backward ctx grad_output = Inl InvalidArgument)
     = (length grad_output \<noteq> 1 \<and> length grad_output \<noteq> 2)
   \<and> PackSegments_backward pack_backward ctx [grad, extra]
     = PackSegments_backward pack_backward ctx [grad]
   \<and> (\<forall>ectx' outs.
        LookupFunctionBatchedUnaryEmbeddingOp_forward embedding_forward ectx
          weight table_offsets offsets indices = Inr (ectx', outs) \<longrightarrow>
        (LookupFunctionBatchedUnaryEmbeddingOp_backward embedding_backward ectx' grad_outputs
           = Inl InvalidArgument) = (length grad_outputs \<noteq> 1))"
proof (intro conjI allI impI)
  show "(PackSegments_backward pack_backward ctx grad_output = Inl InvalidArgument)
        = (length grad_output \<noteq> 1 \<and> length grad_output \<noteq> 2)"
    by (auto simp: PackSegments_backward_def Let_def
        split: sum.splits list.splits option.splits dest!: toInt_Inl)
  show "PackSegments_backward pack_backward ctx [grad, extra]
        = PackSegments_backward pack_backward ctx [grad]"
    by (simp add: PackSegments_backward_def)
next
  fix ectx' outs
  assume "LookupFunctionBatchedUnaryEmbeddingOp_forward embedding_forward ectx
            weight table_offsets offsets indices = Inr (ectx', outs)"
  then have "saved_variables ectx' = [weight, table_offsets, offsets, indices]"
    by (auto simp: LookupFunctionBatchedUnaryEmbeddingOp_forward_def Let_def
        split: option.splits)
  then show "(LookupFunctionBatchedUnaryEmbeddingOp_backward embedding_backward ectx' grad_outputs
              = Inl InvalidArgument) = (length grad_outputs \<noteq> 1)"
    by (auto simp: LookupFunctionBatchedUnaryEmbeddingOp_backward_def split: option.splits)
qed

theorem backward_arity_checks_witness:
  "PackSegments_backward example_pack_backward new_context
     [example_grad, example_grad, example_grad] = Inl InvalidArgument
   \<and> PackSegments_backward example_pack_backward new_context [example_grad, example_grad]
     = PackSegments_backward example_pack_backward new_context [example_grad]
   \<and> PackSegments_backward example_pack_backward new_context [example_grad]
     \<noteq> Inl InvalidArgument
   \<and> (\<exists>ectx' outs.
        LookupFunctionBatchedUnaryEmbeddingOp_forward example_embedding_forward new_context
          example_input example_indices example_indices example_indices = Inr (ectx', outs)
        \<and> LookupFunctionBatchedUnaryEmbeddingOp_backward example_embedding_backward ectx'
            [example_grad, example_grad] = Inl InvalidArgument
        \<and> LookupFunctionBatchedUnaryEmbeddingOp_backward example_embedding_backward ectx'
            [example_grad] \<noteq> Inl InvalidArgument)"
proof -
  obtain ectx' outs where fwd:
    "LookupFunctionBatchedUnaryEmbeddingOp_forward example_embedding_forward new_context
       example_input example_indices example_indices example_indices = Inr (ectx', outs)"
    by (simp add: LookupFunctionBatchedUnaryEmbeddingOp_forward_def example_embedding_forward_def)
  note pack = backward_arity_checks [of example_pack_backward new_context _ example_grad
      example_grad example_embedding_forward new_context example_input example_indices
      example_indices example_indices example_embedding_backward]
  have p3: "PackSegments_backward example_pack_backward new_context
              [example_grad, example_grad, example_grad] = Inl InvalidArgument"
    using pack [of "[example_grad, example_grad, example_grad]"] by simp
  have p1: "PackSegments_backward example_pack_backward new_context [example_grad]
            \<noteq> Inl InvalidArgument"
    using pack [of "[example_grad]"] by simp
  have p2: "PackSegments_backward example_pack_backward new_context [example_grad, example_grad]
            = PackSegments_backward example_pack_backward new_context [example_grad]"
    using pack [of "[]"] by simp
  have e2: "LookupFunctionBatchedUnaryEmbeddingOp_backward example_embedding_backward ectx'
              [example_grad, example_grad] = Inl InvalidArgument"
    using pack [of "[]" "[example_grad, example_grad]"] fwd by simp
  have e1: "LookupFunctionBatchedUnaryEmbeddingOp_backward example_embedding_backward ectx'
              [example_grad] \<noteq> Inl InvalidArgument"
    using pack [of "[]" "[example_grad]"] fwd by simp
  from fwd p3 p2 p1 e2 e1 show ?thesis by blast
qed

section \<open>Gradient slots\<close>

text \<open>
  What the backward passes of PackSegments and of the embedding operator return when they
  succeed: the gradient for the first input, followed by undefined tensors.
\<close>

lemma pack_segments_backward_slots:
  "PackSegments_backward pack_backward ctx grad_output = Inr grads \<Longrightarrow>
   \<exists>grad_input. grads = [Some grad_input, None, None, None, None]"
  by (auto simp: PackSegments_backward_def Let_def numeral_eq_Suc
      split: if_splits sum.splits list.splits option.splits)

lemma embedding_backward_slots:
  "LookupFunctionBatchedUnaryEmbeddingOp_backward embedding_backward ctx grad_outputs = Inr grads \<Longrightarrow>
   \<exists>grad_weight. grads = [Some grad_weight, None, None, None]"
  by (auto simp: LookupFunctionBatchedUnaryEmbeddingOp_backward_def
      split: if_splits list.splits option.splits)

text \<open>
  C1. The number of gradient slots returned by \<open>PackSegments::backward\<close>, evaluated on a
  forward pass with its three inputs \<open>(t_in, lengths, max_length)\<close>: the list that comes back
  has five slots (the gradient for \<open>t_in\<close> and four undefined tensors), not three.
\<close>

theorem pack_segments_backward_five_slots:
  "(case PackSegments_forward example_pack_forward new_context
           example_input example_lengths 2 of
      Inl e \<Rightarrow> Inl e
    | Inr (ctx, outs) \<Rightarrow>
        PackSegments_backward example_pack_backward ctx [example_grad])
   = Inr [Some example_grad, None, None, None, None]"
  by (simp add: PackSegments_forward_def PackSegments_backward_def new_context_def
      example_input_def example_pack_forward_def example_pack_backward_def toInt_def
      numeral_eq_Suc)

section \<open>The entry point \<open>index_select_dim0_gpu\<close>\<close>



section \<open>The sort and the example run\<close>

text \<open>
  The pair returned by \<open>tensor_sort\<close> is a sorted index permutation: the values ascend, and
  gathering the original tensor at the recorded positions gives the sorted values.
\<close>

lemma tensor_sort_sorted: "sorted (elems (fst (tensor_sort t)))"
  by (simp add: tensor_sort_def Let_def sorted_sort_key)

lemma tensor_sort_gather:
  "map (\<lambda>i. elems t ! nat i) (elems (snd (tensor_sort t))) = elems (fst (tensor_sort t))"
proof -
  let ?qs = "sort_key fst (zip (elems t) [0..<length (elems t)])"
  have "fst q = elems t ! snd q" if "q \<in> set ?qs" for q
  proof -
    from that have "q \<in> set (zip (elems t) [0..<length (elems t)])"
      by simp
    then show ?thesis
      by (auto simp: in_set_zip)
  qed
  then have "map (\<lambda>q. elems t ! snd q) ?qs = map fst ?qs"
    by simp
  then show ?thesis
    by (simp add: tensor_sort_def Let_def comp_def)
qed

text \<open>
  The order in which equal indices come out of the sort does not matter to the scatter:
  any two walks through the same (destination, source) pairs accumulate the same rows.
\<close>

lemma scatter_add_cong_mset:
  "mset ps = mset qs \<Longrightarrow> scatter_add g acc ps = scatter_add g acc qs"
  by (rule nth_equalityI)
    (simp_all add: length_scatter_add scatter_add_nth run_sum_cong_mset [of ps qs])

lemma range_add_cong_mset:
  "mset ps = mset qs \<Longrightarrow> distinct ks \<Longrightarrow> range_add g ps acc ks = range_add g qs acc ks"
  by (rule nth_equalityI)
    (simp_all add: length_range_add range_add_nth run_sum_cong_mset [of ps qs])

lemma forward_outputs:
  "map_sum id snd (IndexSelectDim0GPUOp_forward K ctx input indices s l skip) =
     (if \<not> is_cuda input then Inl NotCudaTensor
      else if \<not> is_cuda indices then Inl NotCudaTensor
      else if \<not> same_device input indices then Inl DeviceMismatch
      else case K input (if skip then indices else fst (tensor_sort indices))
                  (if skip then None else Some (snd (tensor_sort indices))) (\<not> skip) of
             None \<Rightarrow> Inl KernelError
           | Some output \<Rightarrow> Inr [output])"
  by (simp add: IndexSelectDim0GPUOp_forward_def Let_def split_beta split: option.splits)

lemma forward_succeeds:
  assumes "is_cuda input" "is_cuda indices" "same_device input indices"
    and "K input (if skip then indices else fst (tensor_sort indices))
           (if skip then None else Some (snd (tensor_sort indices))) (\<not> skip) = Some out"
  shows "\<exists>ctx'. IndexSelectDim0GPUOp_forward K ctx input indices s l skip = Inr (ctx', [out])"
  using assms
  by (simp add: IndexSelectDim0GPUOp_forward_def Let_def split_beta)

lemma example_devices:
  "is_cuda example_input" "is_cuda example_indices" "is_cuda example_grad"
  "is_cuda example_empty"
  "same_device example_input example_indices" "same_device example_grad example_indices"
  "same_device example_input example_empty" "same_device example_empty example_empty"
  by (simp_all add: is_cuda_def same_device_def example_input_def example_indices_def
      example_grad_def example_empty_def)

lemma example_index_select:
  "index_select_cuda example_input example_indices None False
   = Some \<lparr>get_device = CUDA 0, sizes = [3], elems = [30, 10, 30]\<rparr>"
  "index_select_cuda example_input example_empty None False
   = Some \<lparr>get_device = CUDA 0, sizes = [0], elems = []\<rparr>"
  by (simp_all add: index_select_cuda_def example_input_def example_indices_def
      example_empty_def in_range_def)

lemma example_forward:
  "\<exists>ctx'. IndexSelectDim0GPUOp_forward index_select_cuda new_context
            example_input example_indices s l skip
          = Inr (ctx', [\<lparr>get_device = CUDA 0, sizes = [3], elems = [30, 10, 30]\<rparr>])"
  by (rule forward_succeeds)
    (simp_all add: example_devices example_index_select index_select_cuda_sorted)

lemma example_forward_empty:
  "\<exists>ctx'. IndexSelectDim0GPUOp_forward index_select_cuda new_context
            example_input example_empty s l skip
          = Inr (ctx', [\<lparr>get_device = CUDA 0, sizes = [0], elems = []\<rparr>])"
  by (rule forward_succeeds)
    (simp_all add: example_devices example_index_select index_select_cuda_sorted)

lemma example_index_add:
  "index_add_with_unique_indices_cuda example_grad (fst (tensor_sort example_indices))
     (snd (tensor_sort example_indices)) (sizes example_input) 0 0
   = Some \<lparr>get_device = CUDA 0, sizes = [3], elems = [10, 0, 101]\<rparr>"
  "index_add_with_unique_indices_cuda example_empty (fst (tensor_sort example_empty))
     (snd (tensor_sort example_empty)) (sizes example_input) 0 0
   = Some \<lparr>get_device = CUDA 0, sizes = [3], elems = [0, 0, 0]\<rparr>"
  by (simp_all add: index_add_with_unique_indices_cuda_def tensor_sort_def example_grad_def
      example_indices_def example_input_def example_empty_def in_range_def numeral_eq_Suc)


section \<open>Forward: the sort is invisible in the output\<close>

text \<open>
  C2. For every input tensor and every index tensor (unsorted, with duplicates, or with
  entries out of range), the forward pass of IndexSelect with \<open>skip_sort = false\<close>, which
  sorts the indices and gathers through the sorted permutation, gives exactly the same
  result as the forward pass with \<open>skip_sort = true\<close>, which gathers with the raw indices.
  Whenever a forward pass succeeds, row \<open>i\<close> of its output is \<open>input[indices[i]]\<close>, and the
  output has one row per index and the trailing dimensions of the input.
\<close>

theorem index_select_sort_transparent:
  fixes input :: "('a::zero) tensor"
  shows
  "map_sum id snd (IndexSelectDim0GPUOp_forward index_select_cuda ctx input indices s l False)
     = map_sum id snd (IndexSelectDim0GPUOp_forward index_select_cuda ctx input indices s l True)
   \<and> (\<forall>skip ctx' outs.
        IndexSelectDim0GPUOp_forward index_select_cuda ctx input indices s l skip
          = Inr (ctx', outs) \<longrightarrow>
        (\<exists>output. outs = [output]
           \<and> length (elems output) = length (elems indices)
           \<and> sizes output = length (elems indices) # tl (sizes input)
           \<and> (\<forall>i < length (elems indices).
                 elems output ! i = elems input ! nat (elems indices ! i))))"
proof (intro conjI allI impI)
  show "map_sum id snd (IndexSelectDim0GPUOp_forward index_select_cuda ctx input indices s l False)
     = map_sum id snd (IndexSelectDim0GPUOp_forward index_select_cuda ctx input indices s l True)"
    by (simp add: forward_outputs index_select_cuda_sorted)
next
  fix skip ctx' outs
  assume fwd: "IndexSelectDim0GPUOp_forward index_select_cuda ctx input indices s l skip
               = Inr (ctx', outs)"
  from forward_Inr_D(7) [OF fwd] obtain out where out: "outs = [out]"
    and "index_select_cuda input (if skip then indices else fst (tensor_sort indices))
           (if skip then None else Some (snd (tensor_sort indices))) (\<not> skip) = Some out"
    by blast
  then have raw: "index_select_cuda input indices None False = Some out"
    by (cases skip) (simp_all add: index_select_cuda_sorted)
  note rows = index_select_cuda_rows [OF raw]
  have "length (elems out) = length (elems indices)"
    by (simp add: rows(3))
  moreover have "sizes out = length (elems indices) # tl (sizes input)"
    by (rule rows(1))
  moreover have "\<forall>i < length (elems indices). elems out ! i = elems input ! nat (elems indices ! i)"
    by (simp add: rows(3))
  ultimately show "\<exists>output. outs = [output]
           \<and> length (elems output) = length (elems indices)
           \<and> sizes output = length (elems indices) # tl (sizes input)
           \<and> (\<forall>i < length (elems indices).
                 elems output ! i = elems input ! nat (elems indices ! i))"
    using out by blast
qed

theorem index_select_sort_transparent_witness:
  "\<exists>ctx' output.
     IndexSelectDim0GPUOp_forward index_select_cuda new_context
       example_input example_indices 0 0 False = Inr (ctx', [output])
     \<and> map_sum id snd (IndexSelectDim0GPUOp_forward index_select_cuda new_context
          example_input example_indices 0 0 True) = Inr [output]
     \<and> elems output ! 0 = elems example_input ! 2
     \<and> elems output ! 1 = elems example_input ! 0
     \<and> elems output ! 2 = elems example_input ! 2"
proof -
  from example_forward [of 0 0 False] obtain ctx' out where
    fwd: "IndexSelectDim0GPUOp_forward index_select_cuda new_context
            example_input example_indices 0 0 False = Inr (ctx', [out])"
    by blast
  note transparent = index_select_sort_transparent [of new_context example_input
      example_indices 0 0]
  from transparent [THEN conjunct1] fwd
  have raw: "map_sum id snd (IndexSelectDim0GPUOp_forward index_select_cuda new_context
               example_input example_indices 0 0 True) = Inr [out]"
    by simp
  from transparent [THEN conjunct2, rule_format, OF fwd]
  have rows: "\<forall>i < length (elems example_indices).
                elems out ! i = elems example_input ! nat (elems example_indices ! i)"
    by simp
  have "elems out ! 0 = elems example_input ! 2"
    using rows [rule_format, of 0] by (simp add: example_indices_def)
  moreover have "elems out ! 1 = elems example_input ! 0"
    using rows [rule_format, of 1] by (simp add: example_indices_def)
  moreover have "elems out ! 2 = elems example_input ! 2"
    using rows [rule_format, of 2] by (simp add: example_indices_def)
  ultimately show ?thesis
    using fwd raw by blast
qed

section \<open>Backward: scatter-add of the gradient\<close>




text \<open>
  C5. For the backward pass of IndexSelect, any \<open>consecutive_range_start\<close> and
  \<open>consecutive_range_length\<close> for which the indices lie in \<open>[start, start + length)\<close> give
  the same result as the hint-free call (start 0, length 0) on the same gradient and
  indices.
\<close>

theorem range_hint_invariance:
  fixes grad_outputs :: "('a::comm_monoid_add) tensor list"
  assumes hinted: "IndexSelectDim0GPUOp_forward index_select ctx input indices s l skip
                   = Inr (ctx1, outs1)"
    and hint_free: "IndexSelectDim0GPUOp_forward index_select ctx input indices 0 0 skip
                    = Inr (ctx0, outs0)"
    and guarantee: "\<forall>x\<in>set (elems indices). sint s \<le> x \<and> x < sint s + sint l"
  shows "IndexSelectDim0GPUOp_backward index_add_with_unique_indices_cuda ctx1 grad_outputs
         = IndexSelectDim0GPUOp_backward index_add_with_unique_indices_cuda ctx0 grad_outputs"
  by (simp only: backward_after_forward [OF hinted] backward_after_forward [OF hint_free]
      index_add_hint_free [OF guarantee])

theorem range_hint_invariance_witness:
  "\<exists>ctx1 outs1 ctx0 outs0.
     IndexSelectDim0GPUOp_forward index_select_cuda new_context
       example_input example_indices 0 3 False = Inr (ctx1, outs1)
     \<and> IndexSelectDim0GPUOp_forward index_select_cuda new_context
         example_input example_indices 0 0 False = Inr (ctx0, outs0)
     \<and> IndexSelectDim0GPUOp_backward index_add_with_unique_indices_cuda ctx1 [example_grad]
       = Inr [Some \<lparr>get_device = CUDA 0, sizes = [3], elems = [10, 0, 101]\<rparr>,
              None, None, None, None]"
proof -
  from example_forward [of 0 3 False] obtain ctx1 outs1 where
    hinted: "IndexSelectDim0GPUOp_forward index_select_cuda new_context
               example_input example_indices 0 3 False = Inr (ctx1, outs1)"
    by blast
  from example_forward [of 0 0 False] obtain ctx0 outs0 where
    hint_free: "IndexSelectDim0GPUOp_forward index_select_cuda new_context
                  example_input example_indices 0 0 False = Inr (ctx0, outs0)"
    by blast
  have guarantee: "\<forall>x\<in>set (elems example_indices). sint (0 :: 32 word) \<le> x
                     \<and> x < sint (0 :: 32 word) + sint (3 :: 32 word)"
    by (simp add: example_indices_def)
  have "IndexSelectDim0GPUOp_backward index_add_with_unique_indices_cuda ctx0 [example_grad]
        = Inr [Some \<lparr>get_device = CUDA 0, sizes = [3], elems = [10, 0, 101]\<rparr>,
               None, None, None, None]"
    by (simp add: backward_after_forward [OF hint_free] example_devices example_index_add)
  with range_hint_invariance [OF hinted hint_free guarantee, of "[example_grad]"]
    hinted hint_free
  show ?thesis by simp
qed

text \<open>
  C6. When the forward pass of IndexSelect ran with \<open>skip_sort = true\<close> it saved only the raw
  indices; the backward pass then sorts them itself and hands the sorted indices and their
  original positions to the scatter kernel. What it returns is a function of the saved
  state and the gradient, and it is what the backward pass returns after a forward pass
  with \<open>skip_sort = false\<close> on the same input, indices and gradient, for every scatter
  kernel.
\<close>

theorem deferred_sort_backward:
  assumes deferred: "IndexSelectDim0GPUOp_forward index_select ctx input indices s l True
                     = Inr (ctx1, outs1)"
    and eager: "IndexSelectDim0GPUOp_forward index_select' ctx input indices s l False
                = Inr (ctx2, outs2)"
  shows "saved_variables ctx1 = [indices]
         \<and> saved_variables ctx2 = [fst (tensor_sort indices), snd (tensor_sort indices)]
         \<and> IndexSelectDim0GPUOp_backward index_add ctx1 grad_outputs
           = (if length grad_outputs \<noteq> 1 then Inl InvalidArgument
              else if \<not> is_cuda (grad_outputs ! 0) then Inl NotCudaTensor
              else if \<not> same_device (grad_outputs ! 0) indices then Inl DeviceMismatch
              else case index_add (grad_outputs ! 0) (fst (tensor_sort indices))
                          (snd (tensor_sort indices)) (sizes input) s l of
                     None \<Rightarrow> Inl KernelError
                   | Some grad_input \<Rightarrow> Inr [Some grad_input, None, None, None, None])
         \<and> IndexSelectDim0GPUOp_backward index_add ctx1 grad_outputs
           = IndexSelectDim0GPUOp_backward index_add ctx2 grad_outputs"
  using forward_Inr_D(2) [OF deferred] forward_Inr_D(2) [OF eager]
  by (simp add: backward_after_forward [OF deferred] backward_after_forward [OF eager])

theorem deferred_sort_backward_witness:
  "\<exists>ctx1 outs1 ctx2 outs2.
     IndexSelectDim0GPUOp_forward index_select_cuda new_context
       example_input example_indices 0 0 True = Inr (ctx1, outs1)
     \<and> IndexSelectDim0GPUOp_forward index_select_cuda new_context
         example_input example_indices 0 0 False = Inr (ctx2, outs2)
     \<and> saved_variables ctx1 = [example_indices]
     \<and> IndexSelectDim0GPUOp_backward index_add_with_unique_indices_cuda ctx1 [example_grad]
       = IndexSelectDim0GPUOp_backward index_add_with_unique_indices_cuda ctx2 [example_grad]
     \<and> IndexSelectDim0GPUOp_backward index_add_with_unique_indices_cuda ctx2 [example_grad]
       = Inr [Some \<lparr>get_device = CUDA 0, sizes = [3], elems = [10, 0, 101]\<rparr>,
              None, None, None, None]"
proof -
  from example_forward [of 0 0 True] obtain ctx1 outs1 where
    deferred: "IndexSelectDim0GPUOp_forward index_select_cuda new_context
                 example_input example_indices 0 0 True = Inr (ctx1, outs1)"
    by blast
  from example_forward [of 0 0 False] obtain ctx2 outs2 where
    eager: "IndexSelectDim0GPUOp_forward index_select_cuda new_context
              example_input example_indices 0 0 False = Inr (ctx2, outs2)"
    by blast
  have "IndexSelectDim0GPUOp_backward index_add_with_unique_indices_cuda ctx2 [example_grad]
        = Inr [Some \<lparr>get_device = CUDA 0, sizes = [3], elems = [10, 0, 101]\<rparr>,
               None, None, None, None]"
    by (simp add: backward_after_forward [OF eager] example_devices example_index_add)
  with deferred_sort_backward [OF deferred eager, of index_add_with_unique_indices_cuda
      "[example_grad]"] deferred eager
  show ?thesis by blast
qed

text \<open>
  C7. After a forward pass of IndexSelect, the first gradient returned by a successful
  backward pass has the shape of the forward input, however many rows the indices selected.
\<close>

theorem index_select_backward_shape:
  fixes grad_outputs :: "('a::comm_monoid_add) tensor list"
  assumes fwd: "IndexSelectDim0GPUOp_forward index_select ctx input indices s l skip
                = Inr (ctx', outs)"
    and bwd: "IndexSelectDim0GPUOp_backward index_add_with_unique_indices_cuda ctx' grad_outputs
              = Inr grads"
  shows "\<exists>grad_input. grads ! 0 = Some grad_input \<and> sizes grad_input = sizes input"
proof -
  from bwd obtain grad_input where
    kernel: "index_add_with_unique_indices_cuda (grad_outputs ! 0) (fst (tensor_sort indices))
               (snd (tensor_sort indices)) (sizes input) s l = Some grad_input"
    and grads: "grads = [Some grad_input, None, None, None, None]"
    by (auto simp: backward_after_forward [OF fwd] split: if_splits option.splits)
  from grads index_add_Some_D(1) [OF kernel] show ?thesis
    by simp
qed

theorem index_select_backward_shape_witness:
  "\<exists>ctx' outs grads grad_input.
     IndexSelectDim0GPUOp_forward index_select_cuda new_context
       example_input example_empty 0 0 True = Inr (ctx', outs)
     \<and> IndexSelectDim0GPUOp_backward index_add_with_unique_indices_cuda ctx' [example_empty]
       = Inr grads
     \<and> grads ! 0 = Some grad_input \<and> sizes grad_input = [3]"
proof -
  from example_forward_empty [of 0 0 True] obtain ctx' outs where
    fwd: "IndexSelectDim0GPUOp_forward index_select_cuda new_context
            example_input example_empty 0 0 True = Inr (ctx', outs)"
    by blast
  have "\<exists>grads. IndexSelectDim0GPUOp_backward index_add_with_unique_indices_cuda ctx'
          [example_empty] = Inr grads"
    by (simp add: backward_after_forward [OF fwd] example_devices example_index_add)
  then obtain grads where
    bwd: "IndexSelectDim0GPUOp_backward index_add_with_unique_indices_cuda ctx' [example_empty]
          = Inr grads"
    by blast
  from index_select_backward_shape [OF fwd bwd] obtain grad_input where
    "grads ! 0 = Some grad_input" "sizes grad_input = sizes example_input"
    by blast
  then have "grads ! 0 = Some grad_input \<and> sizes grad_input = [3]"
    by (simp add: example_input_def)
  with fwd bwd show ?thesis by blast
qed

section \<open>Device checks\<close>

lemma forward_error_cases:
  "IndexSelectDim0GPUOp_forward K ctx input indices s l skip =
     (if \<not> is_cuda input \<or> \<not> is_cuda indices then Inl NotCudaTensor
      else if get_device input \<noteq> get_device indices then Inl DeviceMismatch
      else IndexSelectDim0GPUOp_forward K ctx input indices s l skip)"
  by (simp add: IndexSelectDim0GPUOp_forward_def same_device_def)

lemma forward_not_DeviceMismatch:
  "get_device input = get_device indices \<Longrightarrow>
   IndexSelectDim0GPUOp_forward K ctx input indices s l skip \<noteq> Inl DeviceMismatch"
  by (simp add: IndexSelectDim0GPUOp_forward_def same_device_def Let_def split_beta
      split: option.splits)

text \<open>
  C8, as the code has it. Both passes of IndexSelect first require each tensor to be on a
  CUDA device and fail with \<open>NotCudaTensor\<close> otherwise. They fail with \<open>DeviceMismatch\<close>
  exactly when both tensors are CUDA tensors on different devices (forward: \<open>input\<close> and
  \<open>indices\<close>; backward: \<open>grad_output\<close> and \<open>sorted_indices\<close>). Tensors on different devices
  always make the pass fail with one of these two errors, whatever the kernels are, and
  tensors on the same device never give a \<open>DeviceMismatch\<close>.
\<close>

theorem device_checks:
  "((IndexSelectDim0GPUOp_forward index_select ctx input indices s l skip = Inl DeviceMismatch)
      = (is_cuda input \<and> is_cuda indices \<and> get_device input \<noteq> get_device indices))
   \<and> (get_device input \<noteq> get_device indices \<longrightarrow>
        IndexSelectDim0GPUOp_forward index_select ctx input indices s l skip = Inl NotCudaTensor
        \<or> IndexSelectDim0GPUOp_forward index_select ctx input indices s l skip = Inl DeviceMismatch)
   \<and> (\<forall>ctx' outs.
        IndexSelectDim0GPUOp_forward index_select ctx input indices s l skip = Inr (ctx', outs) \<longrightarrow>
        ((IndexSelectDim0GPUOp_backward index_add ctx' [grad_output] = Inl DeviceMismatch)
           = (is_cuda grad_output
              \<and> get_device grad_output \<noteq> get_device (fst (tensor_sort indices))))
        \<and> (get_device grad_output \<noteq> get_device (fst (tensor_sort indices)) \<longrightarrow>
             IndexSelectDim0GPUOp_backward index_add ctx' [grad_output] = Inl NotCudaTensor
             \<or> IndexSelectDim0GPUOp_backward index_add ctx' [grad_output] = Inl DeviceMismatch))"
proof (intro conjI allI impI)
  show "(IndexSelectDim0GPUOp_forward index_select ctx input indices s l skip = Inl DeviceMismatch)
      = (is_cuda input \<and> is_cuda indices \<and> get_device input \<noteq> get_device indices)"
    using forward_not_DeviceMismatch [of input indices index_select ctx s l skip]
    by (subst forward_error_cases) auto
  show "IndexSelectDim0GPUOp_forward index_select ctx input indices s l skip = Inl NotCudaTensor
        \<or> IndexSelectDim0GPUOp_forward index_select ctx input indices s l skip = Inl DeviceMismatch"
    if "get_device input \<noteq> get_device indices"
    using that by (subst (1 2) forward_error_cases) auto
next
  fix ctx' outs
  assume fwd: "IndexSelectDim0GPUOp_forward index_select ctx input indices s l skip
               = Inr (ctx', outs)"
  note bwd = backward_after_forward [OF fwd, of index_add "[grad_output]"]
  from forward_Inr_D(1) [OF fwd] have cuda: "is_cuda indices"
    by simp
  show "(IndexSelectDim0GPUOp_backward index_add ctx' [grad_output] = Inl DeviceMismatch)
        = (is_cuda grad_output
           \<and> get_device grad_output \<noteq> get_device (fst (tensor_sort indices)))"
    by (auto simp: bwd same_device_def tensor_sort_device split: option.splits)
  show "IndexSelectDim0GPUOp_backward index_add ctx' [grad_output] = Inl NotCudaTensor
        \<or> IndexSelectDim0GPUOp_backward index_add ctx' [grad_output] = Inl DeviceMismatch"
    if "get_device grad_output \<noteq> get_device (fst (tensor_sort indices))"
    using that by (auto simp: bwd same_device_def tensor_sort_device split: option.splits)
qed

theorem device_checks_witness:
  "IndexSelectDim0GPUOp_forward index_select_cuda new_context
     example_input (example_indices\<lparr>get_device := CUDA 1\<rparr>) 0 0 False = Inl DeviceMismatch
   \<and> (\<exists>ctx' outs.
        IndexSelectDim0GPUOp_forward index_select_cuda new_context
          example_input example_indices 0 0 False = Inr (ctx', outs)
        \<and> IndexSelectDim0GPUOp_backward index_add_with_unique_indices_cuda ctx'
            [example_grad\<lparr>get_device := CUDA 1\<rparr>] = Inl DeviceMismatch
        \<and> IndexSelectDim0GPUOp_backward index_add_with_unique_indices_cuda ctx'
            [example_grad] \<noteq> Inl DeviceMismatch)"
proof -
  have devices: "is_cuda example_input" "is_cuda example_indices"
    "same_device example_input example_indices"
    by (simp_all add: is_cuda_def same_device_def example_input_def example_indices_def)
  have kernel: "index_select_cuda example_input (fst (tensor_sort example_indices))
          (Some (snd (tensor_sort example_indices))) True
        = Some \<lparr>get_device = CUDA 0, sizes = [3], elems = [30, 10, 30]\<rparr>"
    by (simp add: index_select_cuda_def tensor_sort_def example_input_def example_indices_def
        in_range_def)
  obtain ctx' outs where fwd:
    "IndexSelectDim0GPUOp_forward index_select_cuda new_context
       example_input example_indices 0 0 False = Inr (ctx', outs)"
    by (simp add: IndexSelectDim0GPUOp_forward_def devices kernel Let_def split_beta)
  have mismatch: "IndexSelectDim0GPUOp_forward index_select_cuda new_context
      example_input (example_indices\<lparr>get_device := CUDA 1\<rparr>) 0 0 False = Inl DeviceMismatch"
    using device_checks [of index_select_cuda new_context example_input
        "example_indices\<lparr>get_device := CUDA 1\<rparr>" 0 0 False, THEN conjunct1]
    by (simp add: is_cuda_def example_input_def example_indices_def)
  note bwd = device_checks [of index_select_cuda new_context example_input example_indices
      0 0 False index_add_with_unique_indices_cuda, THEN conjunct2, THEN conjunct2,
      rule_format, OF fwd, THEN conjunct1]
  have b1: "IndexSelectDim0GPUOp_backward index_add_with_unique_indices_cuda ctx'
              [example_grad\<lparr>get_device := CUDA 1\<rparr>] = Inl DeviceMismatch"
    using bwd [of "example_grad\<lparr>get_device := CUDA 1\<rparr>"]
    by (simp add: is_cuda_def example_grad_def example_indices_def tensor_sort_device)
  have b2: "IndexSelectDim0GPUOp_backward index_add_with_unique_indices_cuda ctx'
              [example_grad] \<noteq> Inl DeviceMismatch"
    using bwd [of example_grad]
    by (simp add: is_cuda_def example_grad_def example_indices_def tensor_sort_device)
  from fwd mismatch b1 b2 show ?thesis by blast
qed

text \<open>
  C8, as the claim states it, fails: with \<open>input\<close> on the CPU and \<open>indices\<close> on a CUDA device
  the two tensors are on different devices, and the forward pass fails in
  \<open>TENSOR_ON_CUDA_GPU(input)\<close>, not with \<open>DeviceMismatch\<close>.
\<close>

theorem device_mismatch_counterexample:
  "get_device example_cpu_input \<noteq> get_device example_indices
   \<and> IndexSelectDim0GPUOp_forward index_select_cuda new_context
       example_cpu_input example_indices 0 0 False = Inl NotCudaTensor
   \<and> IndexSelectDim0GPUOp_forward index_select_cuda new_context
       example_cpu_input example_indices 0 0 False \<noteq> Inl DeviceMismatch"
  by (simp add: IndexSelectDim0GPUOp_forward_def is_cuda_def example_cpu_input_def
      example_indices_def)

end
